theory Spec2Isabelle
  imports Complex_Main
begin

section \<open>Numbers\<close>

text \<open>
  The source computes with JavaScript numbers (IEEE-754 doubles). The embedding computes
  with the real numbers: \<open>Math.exp\<close>, \<open>Math.log\<close>, \<open>Math.sqrt\<close>, \<open>Math.abs\<close>,
  \<open>Math.max\<close> and \<open>Math.PI\<close> are \<^const>\<open>exp\<close>, \<^const>\<open>ln\<close>, \<^const>\<open>sqrt\<close>,
  \<^const>\<open>abs\<close>, \<^const>\<open>max\<close> and \<^const>\<open>pi\<close>; decimal literals are the rationals
  they denote. Rounding and overflow are not part of the model.

  JavaScript evaluates a division by zero, \<open>Math.log\<close> of a non-positive number and
  \<open>Math.sqrt\<close> of a negative number to \<open>Infinity\<close> or \<open>NaN\<close>, which are not reals,
  while the HOL functions are total (\<open>x / 0 = 0\<close>, \<open>ln 0 = 0\<close>). Every theorem below
  that goes through such an operation carries the hypothesis that keeps its argument in
  the domain where JavaScript and the reals agree.
\<close>

section \<open>src/utils/normalDistribution.ts\<close>

subsection \<open>Special functions\<close>

definition erf :: "real \<Rightarrow> real" where
  "erf x =
     (let sign = (if x \<ge> 0 then 1 else - 1);
          x = \<bar>x\<bar>;
          a1 = 0.254829592;
          a2 = - 0.284496736;
          a3 = 1.421413741;
          a4 = - 1.453152027;
          a5 = 1.061405429;
          p = 0.3275911;
          t = 1.0 / (1.0 + p * x);
          y = 1.0 - (((((a5 * t + a4) * t) + a3) * t + a2) * t + a1) * t * exp (- x * x)
      in sign * y)"

definition normalCDF :: "real \<Rightarrow> real" where
  "normalCDF x = 0.5 * (1 + erf (x / sqrt 2))"

definition normalPDF :: "real \<Rightarrow> real" where
  "normalPDF x = exp (- 0.5 * x * x) / sqrt (2 * pi)"

definition normalPDFGeneral :: "real \<Rightarrow> real \<Rightarrow> real \<Rightarrow> real" where
  "normalPDFGeneral x mean stdDev =
     (let z = (x - mean) / stdDev
      in normalPDF z / stdDev)"

definition normalCDFGeneral :: "real \<Rightarrow> real \<Rightarrow> real \<Rightarrow> real" where
  "normalCDFGeneral x mean stdDev =
     (let z = (x - mean) / stdDev
      in normalCDF z)"

text \<open>\<open>throw new Error('Probability must be between 0 and 1')\<close> is the only error of the module.\<close>

datatype error = InvalidProbability

definition normalInverseCDF :: "real \<Rightarrow> error + real" where
  "normalInverseCDF p =
     (if p \<le> 0 \<or> p \<ge> 1 then Inl InvalidProbability
      else
        (let a0 = 2.50662823884;
             a1 = - 18.61500062529;
             a2 = 41.39119773534;
             a3 = - 25.44106049637;
             b0 = - 8.47351093090;
             b1 = 23.08336743743;
             b2 = - 21.06224101826;
             b3 = 3.13082909833;
             c0 = 0.3374754822726147;
             c1 = 0.9761690190917186;
             c2 = 0.1607979714918209;
             c3 = 0.0276438810333863;
             c4 = 0.0038405729373609;
             c5 = 0.0003951896511919;
             c6 = 0.0000321767881768;
             c7 = 0.0000002888167364;
             c8 = 0.0000003960315187;
             y = p - 0.5
         in if \<bar>y\<bar> < 0.42 then
              (let r = y * y;
                   x = y * (((a3 * r + a2) * r + a1) * r + a0) /
                         ((((b3 * r + b2) * r + b1) * r + b0) * r + 1)
               in Inr x)
            else
              (let r = p;
                   r = (if y > 0 then 1 - p else r);
                   r = ln (- ln r);
                   x = c0 + r * (c1 + r * (c2 + r * (c3 + r * (c4 + r * (c5 + r * (c6 + r * (c7 + r * c8)))))));
                   x = (if y < 0 then - x else x)
               in Inr x)))"

subsection \<open>Lognormal density and distribution function\<close>

definition lognormalPDF :: "real \<Rightarrow> real \<Rightarrow> real \<Rightarrow> real" where
  "lognormalPDF x logMean logStdDev =
     (if x \<le> 0 then 0
      else
        (let z = (ln x - logMean) / logStdDev
         in exp (- 0.5 * z * z) / (x * logStdDev * sqrt (2 * pi))))"

definition lognormalCDF :: "real \<Rightarrow> real \<Rightarrow> real \<Rightarrow> real" where
  "lognormalCDF x logMean logStdDev =
     (if x \<le> 0 then 0
      else
        (let z = (ln x - logMean) / logStdDev
         in normalCDF z))"

subsection \<open>Curve discretizer\<close>

text \<open>One element \<open>{ x, y }\<close> of the arrays the two generators return.\<close>

record DensitySample =
  sample_x :: real
  sample_y :: real

text \<open>
  \<open>for (let i = 0; i < numPoints; i++) { ...; data.push({ x, y }) }\<close>: the counter is a
  natural number, \<open>numPoints\<close> is a number like every other argument, and \<open>data\<close> is the
  array built so far. The default arguments of the two generators (\<open>numPoints = 300\<close>,
  \<open>numStdDev = 3\<close>) are the values the pages pass; the model takes all four arguments.
\<close>

function lognormal_loop ::
  "real \<Rightarrow> real \<Rightarrow> real \<Rightarrow> real \<Rightarrow> real \<Rightarrow> nat \<Rightarrow> DensitySample list \<Rightarrow> DensitySample list"
where
  "lognormal_loop logMean logStdDev numPoints xMin step i data =
     (if real i < numPoints then
        (let x = xMin + real i * step;
             y = lognormalPDF x logMean logStdDev
         in lognormal_loop logMean logStdDev numPoints xMin step (Suc i)
              (data @ [\<lparr>sample_x = x, sample_y = y\<rparr>]))
      else data)"
  by pat_completeness auto
termination
  by (relation "measure (\<lambda>(logMean, logStdDev, numPoints, xMin, step, i, data). nat \<lceil>numPoints\<rceil> - i)")
     (auto, linarith)

declare lognormal_loop.simps [simp del]

definition generateLognormalDistributionData ::
  "real \<Rightarrow> real \<Rightarrow> real \<Rightarrow> real \<Rightarrow> DensitySample list"
where
  "generateLognormalDistributionData logMean logStdDev numPoints numStdDev =
     (let data = [];
          logXMin = max 0 (logMean - numStdDev * logStdDev);
          logXMax = logMean + numStdDev * logStdDev;
          xMin = exp logXMin;
          xMax = exp logXMax;
          step = (xMax - xMin) / (numPoints - 1)
      in lognormal_loop logMean logStdDev numPoints xMin step 0 data)"

function normal_loop ::
  "real \<Rightarrow> real \<Rightarrow> real \<Rightarrow> real \<Rightarrow> real \<Rightarrow> nat \<Rightarrow> DensitySample list \<Rightarrow> DensitySample list"
where
  "normal_loop mean stdDev numPoints xMin step i data =
     (if real i < numPoints then
        (let x = xMin + real i * step;
             y = normalPDFGeneral x mean stdDev
         in normal_loop mean stdDev numPoints xMin step (Suc i)
              (data @ [\<lparr>sample_x = x, sample_y = y\<rparr>]))
      else data)"
  by pat_completeness auto
termination
  by (relation "measure (\<lambda>(mean, stdDev, numPoints, xMin, step, i, data). nat \<lceil>numPoints\<rceil> - i)")
     (auto, linarith)

declare normal_loop.simps [simp del]

definition generateNormalDistributionData ::
  "real \<Rightarrow> real \<Rightarrow> real \<Rightarrow> real \<Rightarrow> DensitySample list"
where
  "generateNormalDistributionData mean stdDev numPoints numStdDev =
     (let data = [];
          xMin = max 0 (mean - numStdDev * stdDev);
          xMax = mean + numStdDev * stdDev;
          step = (xMax - xMin) / (numPoints - 1)
      in normal_loop mean stdDev numPoints xMin step 0 data)"

text \<open>The \<open>x\<close> values of a curve, in order.\<close>

definition xs_of :: "DensitySample list \<Rightarrow> real list" where
  "xs_of data = map sample_x data"

text \<open>
  The sample either loop pushes at counter \<open>k\<close>, for a density \<open>pdf\<close>; it is used to state what
  a whole run of a loop returns.
\<close>

definition sample_at :: "(real \<Rightarrow> real) \<Rightarrow> real \<Rightarrow> real \<Rightarrow> nat \<Rightarrow> DensitySample" where
  "sample_at pdf xMin step k =
     \<lparr>sample_x = xMin + real k * step, sample_y = pdf (xMin + real k * step)\<rparr>"

subsection \<open>Distribution parameter model\<close>

text \<open>
  The settings record of the pages (\<open>InvestmentSettings\<close>, \<open>src/unnamed/part_000\<close>)
  shares two field names with the parameters of the model. It is declared first, so that
  \<open>expectedReturn\<close> and \<open>risk\<close> denote the fields of the parameters and the fields of the
  settings are written \<open>InvestmentSettings.expectedReturn\<close> and \<open>InvestmentSettings.risk\<close>.
\<close>

record InvestmentSettings =
  totalAssets :: real
  investmentRatio :: real
  probabilityThreshold :: real
  expectedReturn :: real
  risk :: real

record InvestmentDistributionParams =
  initialAssets :: real
  expectedReturn :: real
  risk :: real
  years :: real

text \<open>
  The object \<open>{ mean, stdDev }\<close> returned by the normal-approximation copy of the module,
  and \<open>{ mean, stdDev, logMean, logStdDev }\<close> returned by the lognormal one.
\<close>

record MeanStdDev =
  mean :: real
  stdDev :: real

record DistributionStatistics = MeanStdDev +
  logMean :: real
  logStdDev :: real

text \<open>
  The lognormal variant, \<open>src/utils/normalDistribution.ts\<close>. The locals \<open>logMean\<close>,
  \<open>logStdDev\<close>, \<open>mean\<close> and \<open>stdDev\<close> of the source are \<open>lm\<close>, \<open>ls\<close>, \<open>m\<close> and \<open>sd\<close>
  here, the names themselves being the fields of the result.
\<close>

definition calculateInvestmentDistribution ::
  "InvestmentDistributionParams \<Rightarrow> DistributionStatistics"
where
  "calculateInvestmentDistribution params =
     (let muRate = expectedReturn params / 100;
          sigmaRate = risk params / 100;
          lm = ln (initialAssets params) + (muRate - sigmaRate * sigmaRate / 2) * years params;
          ls = sigmaRate * sqrt (years params);
          m = initialAssets params * exp (muRate * years params);
          sd = m * sqrt (exp (sigmaRate * sigmaRate * years params) - 1)
      in \<lparr>mean = m, stdDev = sd, logMean = lm, logStdDev = ls\<rparr>)"

text \<open>
  \<open>Math.pow\<close> on finite numbers, after the ECMAScript definition of
  \<open>Number::exponentiate\<close>: any base to the power 0 is 1, a base that is not negative has
  its real power (0 for base 0 and a positive exponent), and a negative base has a power
  only for an integral exponent. The two cases with no real value, \<open>Infinity\<close> for base 0
  with a negative exponent and \<open>NaN\<close> for a negative base with a fractional exponent, are
  given the value 0 here; the theorems below state which exponents and bases they cover.
\<close>

definition Math_pow :: "real \<Rightarrow> real \<Rightarrow> real" where
  "Math_pow base exponent =
     (if exponent = 0 then 1
      else if 0 \<le> base then base powr exponent
      else if exponent = of_int \<lfloor>exponent\<rfloor> then base powi \<lfloor>exponent\<rfloor>
      else 0)"

text \<open>
  The normal-approximation variant, the second copy of the module
  (\<open>src/unnamed/part_002\<close>).
\<close>

definition calculateInvestmentDistribution_normal ::
  "InvestmentDistributionParams \<Rightarrow> MeanStdDev"
where
  "calculateInvestmentDistribution_normal params =
     (let muRate = expectedReturn params / 100;
          sigmaRate = risk params / 100;
          m = initialAssets params * Math_pow (1 + muRate) (years params);
          sd = m * sigmaRate * sqrt (years params)
      in \<lparr>mean = m, stdDev = sd\<rparr>)"

text \<open>The parameters of the worked example: one million at 7.5% return and 18% risk for 10 years.\<close>

definition example_params :: InvestmentDistributionParams where
  "example_params = \<lparr>initialAssets = 1000000, expectedReturn = 7.5, risk = 18, years = 10\<rparr>"

section \<open>The consuming pages (\<open>src/unnamed/part_000\<close>, \<open>src/unnamed/part_001\<close>)\<close>

subsection \<open>Settings: the two ways a value gets into the store\<close>

text \<open>\<open>defaultSettings\<close> of the provider that reads the URL.\<close>

definition defaultSettings :: InvestmentSettings where
  "defaultSettings =
     \<lparr>totalAssets = 10000000,
      investmentRatio = 50,
      probabilityThreshold = 98,
      InvestmentSettings.expectedReturn = 8,
      InvestmentSettings.risk = 15\<rparr>"

text \<open>
  \<open>handleSubmit\<close> of the settings page: every failed check shows a toast and returns;
  otherwise \<open>updateSettings(formData)\<close> replaces all five fields, so the new settings are
  \<open>formData\<close>.
\<close>

datatype form_error =
  TotalAssetsNotPositive
  | InvestmentRatioOutOfRange
  | ProbabilityThresholdOutOfRange
  | RiskNegative

definition handleSubmit :: "InvestmentSettings \<Rightarrow> form_error + InvestmentSettings" where
  "handleSubmit formData =
     (if totalAssets formData \<le> 0 then Inl TotalAssetsNotPositive
      else if investmentRatio formData < 0 \<or> investmentRatio formData > 100
        then Inl InvestmentRatioOutOfRange
      else if probabilityThreshold formData < 0 \<or> probabilityThreshold formData > 100
        then Inl ProbabilityThresholdOutOfRange
      else if InvestmentSettings.risk formData < 0 then Inl RiskNegative
      else Inr formData)"

text \<open>
  The URL effect of \<open>SettingsProvider\<close>. A query parameter is absent
  (\<open>searchParams.get\<close> returns \<open>null\<close>, here \<open>None\<close>) or has been through \<open>parseFloat\<close>,
  which gives \<open>NaN\<close> or a number. Each accepted value overrides the field of the previous
  settings, as \<open>{ ...prev, ...urlSettings }\<close> does.
\<close>

datatype parsed = NaN | Num real

definition SettingsProvider_url ::
  "parsed option \<Rightarrow> parsed option \<Rightarrow> parsed option \<Rightarrow> parsed option \<Rightarrow> parsed option \<Rightarrow>
   InvestmentSettings \<Rightarrow> InvestmentSettings"
where
  "SettingsProvider_url qTotalAssets qInvestmentRatio qProbabilityThreshold qExpectedReturn qRisk prev =
     (let s = prev;
          s = (case qTotalAssets of
                 Some (Num v) \<Rightarrow> if v > 0 then s\<lparr>totalAssets := v\<rparr> else s
               | _ \<Rightarrow> s);
          s = (case qInvestmentRatio of
                 Some (Num v) \<Rightarrow> if v \<ge> 0 \<and> v \<le> 100 then s\<lparr>investmentRatio := v\<rparr> else s
               | _ \<Rightarrow> s);
          s = (case qProbabilityThreshold of
                 Some (Num v) \<Rightarrow> if v \<ge> 0 \<and> v \<le> 100 then s\<lparr>probabilityThreshold := v\<rparr> else s
               | _ \<Rightarrow> s);
          s = (case qExpectedReturn of
                 Some (Num v) \<Rightarrow> s\<lparr>InvestmentSettings.expectedReturn := v\<rparr>
               | _ \<Rightarrow> s);
          s = (case qRisk of
                 Some (Num v) \<Rightarrow> if v \<ge> 0 then s\<lparr>InvestmentSettings.risk := v\<rparr> else s
               | _ \<Rightarrow> s)
      in s)"

subsection \<open>Worst case of the distribution pages\<close>

record WorstCaseOutcome =
  worstCaseAssets :: real
  worstCaseLoss :: real

text \<open>
  What \<open>DistributionPage\<close> computes on every render from the settings and its own state
  (\<open>years\<close>, and the two slider overrides, \<open>null\<close> until a slider is moved). \<open>a ?? b\<close> is
  the case distinction on the option. A \<open>throw\<close> of \<open>normalInverseCDF\<close> is not caught by
  the page and ends the render.
\<close>

definition DistributionPage_normal ::
  "InvestmentSettings \<Rightarrow> real \<Rightarrow> real option \<Rightarrow> real option \<Rightarrow> error + WorstCaseOutcome"
where
  "DistributionPage_normal settings yearsState tempProbabilityThreshold tempInvestmentRatio =
     (let currentInvestmentRatio =
            (case tempInvestmentRatio of Some v \<Rightarrow> v | None \<Rightarrow> investmentRatio settings);
          investmentAmount = totalAssets settings * currentInvestmentRatio / 100;
          stats = calculateInvestmentDistribution_normal
                    \<lparr>initialAssets = investmentAmount,
                     expectedReturn = InvestmentSettings.expectedReturn settings,
                     risk = InvestmentSettings.risk settings,
                     years = yearsState\<rparr>;
          currentProbabilityThreshold =
            (case tempProbabilityThreshold of Some v \<Rightarrow> v | None \<Rightarrow> probabilityThreshold settings);
          probabilityDecimal = currentProbabilityThreshold / 100
      in case normalInverseCDF (1 - probabilityDecimal) of
           Inl e \<Rightarrow> Inl e
         | Inr zScore \<Rightarrow>
             (let wca = max 0 (mean stats + zScore * stdDev stats);
                  wcl = wca - investmentAmount
              in Inr \<lparr>worstCaseAssets = wca, worstCaseLoss = wcl\<rparr>))"

definition DistributionPage_lognormal ::
  "InvestmentSettings \<Rightarrow> real \<Rightarrow> real option \<Rightarrow> real option \<Rightarrow> error + WorstCaseOutcome"
where
  "DistributionPage_lognormal settings yearsState tempProbabilityThreshold tempInvestmentRatio =
     (let currentInvestmentRatio =
            (case tempInvestmentRatio of Some v \<Rightarrow> v | None \<Rightarrow> investmentRatio settings);
          investmentAmount = totalAssets settings * currentInvestmentRatio / 100;
          stats = calculateInvestmentDistribution
                    \<lparr>initialAssets = investmentAmount,
                     expectedReturn = InvestmentSettings.expectedReturn settings,
                     risk = InvestmentSettings.risk settings,
                     years = yearsState\<rparr>;
          currentProbabilityThreshold =
            (case tempProbabilityThreshold of Some v \<Rightarrow> v | None \<Rightarrow> probabilityThreshold settings);
          probabilityDecimal = currentProbabilityThreshold / 100
      in case normalInverseCDF (1 - probabilityDecimal) of
           Inl e \<Rightarrow> Inl e
         | Inr zScore \<Rightarrow>
             (let wca = exp (logMean stats + zScore * logStdDev stats);
                  wcl = wca - investmentAmount
              in Inr \<lparr>worstCaseAssets = wca, worstCaseLoss = wcl\<rparr>))"

section \<open>Properties\<close>

subsection \<open>The error function and the standard normal distribution function\<close>

lemma erf_zero: "erf 0 = 1 / 1000000000"
  by (simp add: erf_def)

lemma erf_odd: "x \<noteq> 0 \<Longrightarrow> erf (- x) = - erf x"
  by (simp add: erf_def Let_def)

lemma normalCDF_zero: "normalCDF 0 = 1 / 2 + 1 / 2000000000"
  by (simp add: normalCDF_def erf_zero)

lemma normalCDF_reflect: "x \<noteq> 0 \<Longrightarrow> normalCDF x + normalCDF (- x) = 1"
  by (simp add: normalCDF_def erf_def Let_def field_simps)

text \<open>
  C7, as stated: for every real \<open>x\<close>, \<open>erf(-x) = -erf(x)\<close>, hence
  \<open>normalCDF(x) + normalCDF(-x) = 1\<close> for every \<open>x\<close> and \<open>normalCDF(0) = 0.5\<close>.
  This fails at \<open>x = 0\<close>, and only there. The sign is \<open>x >= 0 ? 1 : -1\<close>, so 0 takes the
  positive branch, and the polynomial at \<open>t = 1\<close> is the sum of the five coefficients,
  0.999999999: \<open>erf(0)\<close> is \<open>1e-9\<close>, not 0.
\<close>

theorem erf_odd_fails_at_zero:
  "erf (- 0) \<noteq> - erf 0 \<and> normalCDF 0 + normalCDF (- 0) \<noteq> 1 \<and> normalCDF 0 \<noteq> 0.5"
  by (simp add: erf_zero normalCDF_zero)

text \<open>
  C7, amended: for every \<open>x \<noteq> 0\<close>, \<open>erf(-x) = -erf(x)\<close> and
  \<open>normalCDF(x) + normalCDF(-x) = 1\<close> hold exactly (sign extraction and evaluation at
  \<open>|x|\<close>); at 0, \<open>erf(0) = 1e-9\<close> and \<open>normalCDF(0) = 0.5 + 5e-10\<close>, so for every \<open>x\<close> the
  two laws hold within \<open>2e-9\<close> and \<open>1e-9\<close>, and \<open>normalCDF(0)\<close> is 0.5 within \<open>1e-9\<close>.
\<close>

theorem erf_odd_normalCDF_reflect:
  "(x \<noteq> 0 \<longrightarrow> erf (- x) = - erf x \<and> normalCDF x + normalCDF (- x) = 1) \<and>
   erf 0 = 1 / 10 ^ 9 \<and> normalCDF 0 = 0.5 + 5 / 10 ^ 10 \<and>
   \<bar>erf (- x) + erf x\<bar> \<le> 2 / 10 ^ 9 \<and>
   \<bar>normalCDF x + normalCDF (- x) - 1\<bar> \<le> 1 / 10 ^ 9"
proof (cases "x = 0")
  case True
  then show ?thesis by (simp add: erf_zero normalCDF_zero)
next
  case False
  then show ?thesis by (simp add: erf_odd normalCDF_reflect erf_zero normalCDF_zero)
qed

theorem erf_odd_normalCDF_reflect_witness:
  "(1 :: real) \<noteq> 0 \<and> erf (- 1) = - erf 1 \<and> normalCDF 1 + normalCDF (- 1) = 1"
  using erf_odd_normalCDF_reflect [of 1] by simp

subsection \<open>The inverse distribution function: when it throws\<close>

text \<open>
  Where \<open>normalInverseCDF\<close> does not throw, every operation it performs has a real value:
  the denominator of the central branch is positive, and both logarithms of the tail
  branch have a positive argument.
\<close>

lemma central_denominator_positive:
  fixes y :: real
  assumes "\<bar>y\<bar> < 0.42"
  defines "r \<equiv> y * y"
  shows "0 < (((3.13082909833 * r + - 21.06224101826) * r + 23.08336743743) * r
               + - 8.47351093090) * r + 1"
proof -
  have r0: "0 \<le> r" by (simp add: r_def)
  have "r = \<bar>y\<bar> * \<bar>y\<bar>" by (simp add: r_def)
  also have "\<dots> \<le> 0.42 * 0.42"
    using assms(1) by (intro mult_mono) simp_all
  finally have r1: "r \<le> 0.1764" by simp
  have s1: "- 21.06224101826 \<le> 3.13082909833 * r + - 21.06224101826" using r0 by simp
  have "- 21.06224101826 * 0.1764 \<le> - 21.06224101826 * r" using r1 by simp
  also have "\<dots> \<le> (3.13082909833 * r + - 21.06224101826) * r"
    using s1 r0 by (intro mult_right_mono) simp_all
  finally have s2: "19 \<le> (3.13082909833 * r + - 21.06224101826) * r + 23.08336743743" by simp
  have s3: "19 * r \<le> ((3.13082909833 * r + - 21.06224101826) * r + 23.08336743743) * r"
    using s2 r0 by (intro mult_right_mono) simp_all
  have s4: "(19 * r - 8.47351093090) * r
     \<le> (((3.13082909833 * r + - 21.06224101826) * r + 23.08336743743) * r + - 8.47351093090) * r"
    using s3 r0 by (intro mult_right_mono) simp_all
  have "0 \<le> 19 * ((r - 0.22) * (r - 0.22))"
    by (intro mult_nonneg_nonneg zero_le_square) simp
  then have "0 \<le> 19 * (r * r) - 8.36 * r + 0.9196"
    by (simp add: algebra_simps)
  then have "0 < (19 * r - 8.47351093090) * r + 1"
    using r1 by (simp add: algebra_simps)
  then show ?thesis using s4 by linarith
qed

lemma tail_log_arguments_positive:
  fixes p :: real
  assumes "0 < p" "p < 1"
  defines "r \<equiv> (if p - 0.5 > 0 then 1 - p else p)"
  shows "0 < r \<and> 0 < - ln r"
proof -
  have "0 < r" "r < 1" using assms by (auto simp: r_def)
  then show ?thesis by simp
qed

text \<open>
  C3. \<open>normalInverseCDF(p)\<close> raises the invalid-probability error exactly when \<open>p \<le> 0\<close> or
  \<open>p \<ge> 1\<close>, and for every \<open>p\<close> strictly inside (0,1) it returns a value. Nothing is
  clamped: the first statement of the function is the check, and its only outcome is the
  \<open>throw\<close>.
\<close>

theorem normalInverseCDF_raises_iff:
  "(normalInverseCDF p = Inl InvalidProbability \<longleftrightarrow> p \<le> 0 \<or> p \<ge> 1) \<and>
   (0 < p \<and> p < 1 \<longrightarrow> (\<exists>x. normalInverseCDF p = Inr x))"
  by (simp add: normalInverseCDF_def Let_def)

theorem normalInverseCDF_raises_iff_witness:
  "(0 :: real) < 1 / 2 \<and> (1 :: real) / 2 < 1 \<and>
   (\<exists>x. normalInverseCDF (1 / 2) = Inr x) \<and>
   normalInverseCDF (1 / 2) \<noteq> Inl InvalidProbability"
  using normalInverseCDF_raises_iff [of "1 / 2"] by simp

subsection \<open>The error is reachable from settings that pass validation\<close>

text \<open>
  C10. A probability threshold of 100 (and likewise 0) passes the range check of the
  settings form and the check of the URL parser, and with it both distribution pages
  call \<open>normalInverseCDF(1 - 100/100) = normalInverseCDF(0)\<close> (respectively
  \<open>normalInverseCDF(1)\<close>): no step between the settings and the call clamps the value, so
  the render ends in the invalid-probability error, whatever the other settings, the
  horizon and the ratio slider are. The threshold slider of the page only takes over once
  it has been moved; until then its state is \<open>null\<close>.
\<close>

theorem invalid_probability_reachable:
  "handleSubmit (defaultSettings\<lparr>probabilityThreshold := 100\<rparr>)
     = Inr (defaultSettings\<lparr>probabilityThreshold := 100\<rparr>) \<and>
   handleSubmit (defaultSettings\<lparr>probabilityThreshold := 0\<rparr>)
     = Inr (defaultSettings\<lparr>probabilityThreshold := 0\<rparr>) \<and>
   probabilityThreshold (SettingsProvider_url q1 q2 (Some (Num 100)) q4 q5 prev) = 100 \<and>
   probabilityThreshold (SettingsProvider_url q1 q2 (Some (Num 0)) q4 q5 prev) = 0 \<and>
   DistributionPage_normal (settings\<lparr>probabilityThreshold := 100\<rparr>) yearsState None ratio
     = Inl InvalidProbability \<and>
   DistributionPage_normal (settings\<lparr>probabilityThreshold := 0\<rparr>) yearsState None ratio
     = Inl InvalidProbability \<and>
   DistributionPage_lognormal (settings\<lparr>probabilityThreshold := 100\<rparr>) yearsState None ratio
     = Inl InvalidProbability \<and>
   DistributionPage_lognormal (settings\<lparr>probabilityThreshold := 0\<rparr>) yearsState None ratio
     = Inl InvalidProbability"
proof -
  have submit: "handleSubmit (defaultSettings\<lparr>probabilityThreshold := 100\<rparr>)
       = Inr (defaultSettings\<lparr>probabilityThreshold := 100\<rparr>)"
    "handleSubmit (defaultSettings\<lparr>probabilityThreshold := 0\<rparr>)
       = Inr (defaultSettings\<lparr>probabilityThreshold := 0\<rparr>)"
    by (simp_all add: handleSubmit_def defaultSettings_def)
  have url: "probabilityThreshold (SettingsProvider_url q1 q2 (Some (Num 100)) q4 q5 prev) = 100"
    "probabilityThreshold (SettingsProvider_url q1 q2 (Some (Num 0)) q4 q5 prev) = 0"
    by (simp_all add: SettingsProvider_url_def Let_def split: option.splits parsed.splits)
  have inv: "normalInverseCDF (1 - 100 / 100) = Inl InvalidProbability"
    "normalInverseCDF (1 - 0 / 100) = Inl InvalidProbability"
    by (simp_all add: normalInverseCDF_def)
  have page: "DistributionPage_normal (settings\<lparr>probabilityThreshold := 100\<rparr>) yearsState None ratio
       = Inl InvalidProbability"
    "DistributionPage_normal (settings\<lparr>probabilityThreshold := 0\<rparr>) yearsState None ratio
       = Inl InvalidProbability"
    "DistributionPage_lognormal (settings\<lparr>probabilityThreshold := 100\<rparr>) yearsState None ratio
       = Inl InvalidProbability"
    "DistributionPage_lognormal (settings\<lparr>probabilityThreshold := 0\<rparr>) yearsState None ratio
       = Inl InvalidProbability"
    using inv by (simp_all add: DistributionPage_normal_def DistributionPage_lognormal_def Let_def)
  from submit url page show ?thesis by simp
qed

subsection \<open>Enclosures of \<open>exp\<close>, \<open>ln\<close> and \<open>sqrt\<close> at the points of the worked example\<close>

text \<open>
  The Taylor polynomial of \<open>exp\<close> at a point \<open>x \<ge> 0\<close> is a lower bound, and with the
  Lagrange remainder at a bound \<open>M\<close> of \<open>exp x\<close> an upper bound.
\<close>

lemma exp_lower_taylor:
  fixes x :: real
  assumes "0 \<le> x"
  shows "(\<Sum>m<n. x ^ m / fact m) \<le> exp x"
proof -
  obtain t where "exp x = (\<Sum>m<n. x ^ m / fact m) + exp t / fact n * x ^ n"
    using Maclaurin_exp_le [of x n] by blast
  moreover have "0 \<le> exp t / fact n * x ^ n" using assms by simp
  ultimately show ?thesis by linarith
qed

lemma exp_upper_taylor:
  fixes x :: real
  assumes "0 \<le> x" "exp x \<le> M"
  shows "exp x \<le> (\<Sum>m<n. x ^ m / fact m) + M / fact n * x ^ n"
proof -
  obtain t where t: "\<bar>t\<bar> \<le> \<bar>x\<bar>"
    and e: "exp x = (\<Sum>m<n. x ^ m / fact m) + exp t / fact n * x ^ n"
    using Maclaurin_exp_le [of x n] by blast
  have "exp t \<le> exp x" using t assms(1) by simp
  then have "exp t \<le> M" using assms(2) by linarith
  then have "exp t / fact n * x ^ n \<le> M / fact n * x ^ n"
    using assms(1) by (intro mult_right_mono divide_right_mono) simp_all
  then show ?thesis using e by linarith
qed

lemma exp_le_27: "x \<le> 3 \<Longrightarrow> exp (x::real) \<le> 27"
proof -
  assume "x \<le> 3"
  then have "exp x \<le> exp 3" by simp
  also have "exp (3::real) = exp 1 ^ 3" by (simp add: exp_of_nat_mult [symmetric] del: exp_of_nat_mult)
  also have "\<dots> \<le> 3 ^ 3" by (intro power_mono exp_le) simp
  finally show ?thesis by simp
qed

lemma exp_075_lower: "2.116 \<le> exp (0.75::real)"
  using exp_lower_taylor [of "0.75" 8]
  by (simp add: eval_nat_numeral lessThan_Suc)

lemma exp_075_upper: "exp (0.75::real) \<le> 2.118"
  using exp_upper_taylor [of "0.75" 27 8] exp_le_27 [of "0.75"]
  by (simp add: eval_nat_numeral lessThan_Suc)


lemma exp_ln10_upper: "exp (2.30258::real) < 10"
proof -
  have "exp (2.30258::real) \<le> (\<Sum>m<18. 2.30258 ^ m / fact m) + 27 / fact 18 * 2.30258 ^ 18"
    by (rule exp_upper_taylor) (simp_all add: exp_le_27)
  also have "\<dots> < 10"
    by (simp add: eval_nat_numeral lessThan_Suc)
  finally show ?thesis .
qed

lemma exp_ln10_lower: "10 < exp (2.30259::real)"
proof -
  have "(10::real) < (\<Sum>m<18. 2.30259 ^ m / fact m)"
    by (simp add: eval_nat_numeral lessThan_Suc)
  also have "\<dots> \<le> exp 2.30259"
    by (rule exp_lower_taylor) simp
  finally show ?thesis .
qed

lemma ln10_bounds: "2.30258 < ln (10::real)" "ln (10::real) < 2.30259"
proof -
  have "exp (2.30258::real) < exp (ln 10)" using exp_ln10_upper by simp
  then show "2.30258 < ln (10::real)" by (simp only: exp_less_cancel_iff)
  have "exp (ln (10::real)) < exp 2.30259" using exp_ln10_lower by simp
  then show "ln (10::real) < 2.30259" by (simp only: exp_less_cancel_iff)
qed

lemma ln_million: "ln (1000000::real) = 6 * ln 10"
proof -
  have "(1000000::real) = 10 ^ 6" by simp
  then show ?thesis by (simp only: ln_realpow of_nat_numeral)
qed


lemma sqrt10_bounds: "3.1622 < sqrt 10" "sqrt 10 < 3.1623"
proof -
  show "3.1622 < sqrt 10" by (rule real_less_rsqrt) (simp add: power2_eq_square)
  show "sqrt 10 < 3.1623" by (rule real_less_lsqrt) (simp_all add: power2_eq_square)
qed

subsection \<open>The normal-approximation variant\<close>

lemma Math_pow_nonneg_base:
  "0 < e \<Longrightarrow> 0 \<le> b \<Longrightarrow> Math_pow b e = b powr e"
  by (simp add: Math_pow_def)

lemma Math_pow_nat:
  "0 < n \<Longrightarrow> Math_pow b (real n) = b ^ n"
  by (simp add: Math_pow_def powr_realpow' power_int_def)

lemma normal_variant_general:
  assumes "0 < initialAssets p" "0 \<le> risk p" "0 < years p"
  shows "stdDev (calculateInvestmentDistribution_normal p)
           = mean (calculateInvestmentDistribution_normal p) * (risk p / 100) * sqrt (years p)"
    and "- 100 \<le> expectedReturn p \<Longrightarrow>
         mean (calculateInvestmentDistribution_normal p)
           = initialAssets p * (1 + expectedReturn p / 100) powr years p"
    and "years p = real n \<Longrightarrow>
         mean (calculateInvestmentDistribution_normal p)
           = initialAssets p * (1 + expectedReturn p / 100) ^ n"
proof -
  show "stdDev (calculateInvestmentDistribution_normal p)
           = mean (calculateInvestmentDistribution_normal p) * (risk p / 100) * sqrt (years p)"
    by (simp add: calculateInvestmentDistribution_normal_def Let_def)
  show "mean (calculateInvestmentDistribution_normal p)
           = initialAssets p * (1 + expectedReturn p / 100) powr years p"
    if "- 100 \<le> expectedReturn p"
  proof -
    have "0 \<le> 1 + expectedReturn p / 100" using that by simp
    then show ?thesis
      using assms(3) by (simp add: calculateInvestmentDistribution_normal_def Let_def Math_pow_nonneg_base)
  qed
  show "mean (calculateInvestmentDistribution_normal p)
           = initialAssets p * (1 + expectedReturn p / 100) ^ n"
    if "years p = real n"
  proof -
    have "0 < n" using assms(3) that by simp
    then show ?thesis
      using that by (simp add: calculateInvestmentDistribution_normal_def Let_def Math_pow_nat)
  qed
qed

lemma normal_variant_example_mean:
  "mean (calculateInvestmentDistribution_normal example_params) = 1000000 * 1.075 ^ 10"
  by (simp add: example_params_def calculateInvestmentDistribution_normal_def Math_pow_def)

lemma normal_variant_example:
  "\<bar>mean (calculateInvestmentDistribution_normal example_params) - 2061032\<bar> \<le> 2061032 / 100"
  "\<bar>stdDev (calculateInvestmentDistribution_normal example_params) - 1173000\<bar> \<le> 1173000 / 100"
proof -
  define m where "m = mean (calculateInvestmentDistribution_normal example_params)"
  have m: "2061031 \<le> m" "m \<le> 2061032"
    unfolding m_def normal_variant_example_mean by (simp_all add: power_divide)
  show "\<bar>mean (calculateInvestmentDistribution_normal example_params) - 2061032\<bar> \<le> 2061032 / 100"
    using m unfolding m_def by simp
  have sd: "stdDev (calculateInvestmentDistribution_normal example_params) = m * 0.18 * sqrt 10"
    unfolding m_def by (simp add: example_params_def calculateInvestmentDistribution_normal_def Let_def)
  have "2061031 * 0.18 * 3.1622 \<le> m * 0.18 * sqrt 10"
    using m sqrt10_bounds by (intro mult_mono) simp_all
  moreover have "m * 0.18 * sqrt 10 \<le> 2061032 * 0.18 * 3.1623"
    using m sqrt10_bounds by (intro mult_mono) simp_all
  ultimately show "\<bar>stdDev (calculateInvestmentDistribution_normal example_params) - 1173000\<bar> \<le> 1173000 / 100"
    unfolding sd by simp
qed


text \<open>
  C5. For every \<open>InvestmentDistributionParams\<close> with \<open>initialAssets > 0\<close>, \<open>risk \<ge> 0\<close>,
  \<open>years > 0\<close>, the normal-approximation variant returns
  \<open>mean = initialAssets * (1 + expectedReturn/100)^years\<close> and
  \<open>stdDev = mean * (risk/100) * sqrt(years)\<close>. The power is the real power when the base
  \<open>1 + expectedReturn/100\<close> is not negative, and the repeated product when \<open>years\<close> is a
  whole number (any base); these are the cases in which \<open>Math.pow\<close> returns a number. For
  the worked example, \<open>mean\<close> is within 1% of 2,061,032 and \<open>stdDev\<close> within 1% of 1,173,000.
\<close>

theorem calculateInvestmentDistribution_normal_formulas:
  "(0 < initialAssets p \<and> 0 \<le> risk p \<and> 0 < years p \<longrightarrow>
      stdDev (calculateInvestmentDistribution_normal p)
        = mean (calculateInvestmentDistribution_normal p) * (risk p / 100) * sqrt (years p) \<and>
      (- 100 \<le> expectedReturn p \<longrightarrow>
         mean (calculateInvestmentDistribution_normal p)
           = initialAssets p * (1 + expectedReturn p / 100) powr years p) \<and>
      (\<forall>n. years p = real n \<longrightarrow>
         mean (calculateInvestmentDistribution_normal p)
           = initialAssets p * (1 + expectedReturn p / 100) ^ n)) \<and>
   \<bar>mean (calculateInvestmentDistribution_normal example_params) - 2061032\<bar> \<le> 2061032 / 100 \<and>
   \<bar>stdDev (calculateInvestmentDistribution_normal example_params) - 1173000\<bar> \<le> 1173000 / 100"
  using normal_variant_general [of p] normal_variant_example by blast

theorem calculateInvestmentDistribution_normal_formulas_witness:
  "0 < initialAssets example_params \<and> 0 \<le> risk example_params \<and> 0 < years example_params \<and>
   - 100 \<le> expectedReturn example_params \<and> years example_params = real 10 \<and>
   stdDev (calculateInvestmentDistribution_normal example_params)
     = mean (calculateInvestmentDistribution_normal example_params) * (18 / 100) * sqrt 10 \<and>
   mean (calculateInvestmentDistribution_normal example_params) = 1000000 * (1 + 7.5 / 100) powr 10 \<and>
   mean (calculateInvestmentDistribution_normal example_params) = 1000000 * (1 + 7.5 / 100) ^ 10"
proof -
  have h: "0 < initialAssets example_params \<and> 0 \<le> risk example_params \<and> 0 < years example_params"
    "- 100 \<le> expectedReturn example_params" "years example_params = real 10"
    by (simp_all add: example_params_def)
  have v: "initialAssets example_params = 1000000" "expectedReturn example_params = 7.5"
    "risk example_params = 18"
    by (simp_all add: example_params_def)
  from h show ?thesis
    using calculateInvestmentDistribution_normal_formulas [of example_params]
    by (simp only: v h) simp
qed

subsection \<open>The lognormal variant\<close>

lemma lognormal_variant_general:
  assumes "0 < initialAssets p" "0 \<le> risk p" "0 < years p"
  shows "logMean (calculateInvestmentDistribution p)
           = ln (initialAssets p) + (expectedReturn p / 100 - (risk p / 100)\<^sup>2 / 2) * years p"
    and "logStdDev (calculateInvestmentDistribution p) = (risk p / 100) * sqrt (years p)"
    and "mean (calculateInvestmentDistribution p)
           = initialAssets p * exp ((expectedReturn p / 100) * years p)"
    and "stdDev (calculateInvestmentDistribution p)
           = mean (calculateInvestmentDistribution p) * sqrt (exp ((risk p / 100)\<^sup>2 * years p) - 1)"
  by (simp_all add: calculateInvestmentDistribution_def Let_def power2_eq_square)

lemma lognormal_variant_example_values:
  "logMean (calculateInvestmentDistribution example_params) = 6 * ln 10 + 0.588"
  "logStdDev (calculateInvestmentDistribution example_params) = 0.18 * sqrt 10"
  "mean (calculateInvestmentDistribution example_params) = 1000000 * exp 0.75"
  by (simp_all add: calculateInvestmentDistribution_def Let_def example_params_def ln_million)

lemma lognormal_variant_example:
  "\<bar>logMean (calculateInvestmentDistribution example_params) - 14.4035\<bar> \<le> 0.00005"
  "\<bar>logStdDev (calculateInvestmentDistribution example_params) - 0.5692\<bar> \<le> 0.00005"
  "\<bar>mean (calculateInvestmentDistribution example_params) - 2117000\<bar> \<le> 2117000 / 100"
proof -
  have "14.40345 \<le> 6 * ln (10::real) + 0.588" "6 * ln (10::real) + 0.588 \<le> 14.40355"
    using ln10_bounds by simp_all
  then show "\<bar>logMean (calculateInvestmentDistribution example_params) - 14.4035\<bar> \<le> 0.00005"
    unfolding lognormal_variant_example_values abs_le_iff by simp
  have "0.56915 \<le> 0.18 * sqrt 10" "0.18 * sqrt 10 \<le> 0.56925"
    using sqrt10_bounds by simp_all
  then show "\<bar>logStdDev (calculateInvestmentDistribution example_params) - 0.5692\<bar> \<le> 0.00005"
    unfolding lognormal_variant_example_values abs_le_iff by simp
  show "\<bar>mean (calculateInvestmentDistribution example_params) - 2117000\<bar> \<le> 2117000 / 100"
    unfolding lognormal_variant_example_values
    using exp_075_lower exp_075_upper by (simp add: abs_le_iff)
qed

text \<open>
  C1, as stated: for the worked example the lognormal variant yields
  \<open>logMean \<approx> 13.9654\<close>. The formula the claim itself gives,
  \<open>ln(1_000_000) + (0.075 - 0.18\<^sup>2/2) * 10\<close>, is \<open>13.8155... + 0.588 = 14.4035...\<close>; the value
  computed by the code is more than 3% away from 13.9654.
\<close>

theorem lognormal_variant_logMean_not_13_9654:
  "\<not> \<bar>logMean (calculateInvestmentDistribution example_params) - 13.9654\<bar> \<le> 13.9654 / 100"
  unfolding lognormal_variant_example_values
  using ln10_bounds by (simp add: abs_le_iff)

text \<open>
  C1, amended: for every \<open>InvestmentDistributionParams\<close> with \<open>initialAssets > 0\<close>,
  \<open>risk \<ge> 0\<close>, \<open>years > 0\<close>, the lognormal variant returns
  \<open>logMean = ln(initialAssets) + (expectedReturn/100 - (risk/100)\<^sup>2/2) * years\<close>,
  \<open>logStdDev = (risk/100) * sqrt(years)\<close>,
  \<open>mean = initialAssets * exp((expectedReturn/100) * years)\<close> and
  \<open>stdDev = mean * sqrt(exp((risk/100)\<^sup>2 * years) - 1)\<close>; for the worked example it yields
  \<open>logMean \<approx> 14.4035\<close> and \<open>logStdDev \<approx> 0.5692\<close> (both to four decimals) and \<open>mean\<close>
  within 1% of 2,117,000.
\<close>

theorem calculateInvestmentDistribution_lognormal_formulas:
  "(0 < initialAssets p \<and> 0 \<le> risk p \<and> 0 < years p \<longrightarrow>
      logMean (calculateInvestmentDistribution p)
        = ln (initialAssets p) + (expectedReturn p / 100 - (risk p / 100)\<^sup>2 / 2) * years p \<and>
      logStdDev (calculateInvestmentDistribution p) = (risk p / 100) * sqrt (years p) \<and>
      mean (calculateInvestmentDistribution p)
        = initialAssets p * exp ((expectedReturn p / 100) * years p) \<and>
      stdDev (calculateInvestmentDistribution p)
        = mean (calculateInvestmentDistribution p) * sqrt (exp ((risk p / 100)\<^sup>2 * years p) - 1)) \<and>
   \<bar>logMean (calculateInvestmentDistribution example_params) - 14.4035\<bar> \<le> 0.00005 \<and>
   \<bar>logStdDev (calculateInvestmentDistribution example_params) - 0.5692\<bar> \<le> 0.00005 \<and>
   \<bar>mean (calculateInvestmentDistribution example_params) - 2117000\<bar> \<le> 2117000 / 100"
  using lognormal_variant_general [of p] lognormal_variant_example by blast

theorem calculateInvestmentDistribution_lognormal_formulas_witness:
  "0 < initialAssets example_params \<and> 0 \<le> risk example_params \<and> 0 < years example_params \<and>
   logMean (calculateInvestmentDistribution example_params)
     = ln 1000000 + (7.5 / 100 - (18 / 100)\<^sup>2 / 2) * 10 \<and>
   logStdDev (calculateInvestmentDistribution example_params) = (18 / 100) * sqrt 10 \<and>
   mean (calculateInvestmentDistribution example_params) = 1000000 * exp ((7.5 / 100) * 10)"
proof -
  have h: "0 < initialAssets example_params \<and> 0 \<le> risk example_params \<and> 0 < years example_params"
    by (simp add: example_params_def)
  have v: "initialAssets example_params = 1000000" "expectedReturn example_params = 7.5"
    "risk example_params = 18" "years example_params = 10"
    by (simp_all add: example_params_def)
  from h show ?thesis
    using calculateInvestmentDistribution_lognormal_formulas [of example_params]
    by (simp only: v)
qed

subsection \<open>The curve discretizer\<close>

text \<open>
  A call with an integral \<open>numPoints = n\<close> runs the loop body for \<open>i = 0, \<dots>, n - 1\<close> and
  returns the samples in that order.
\<close>

lemma normal_loop_map:
  "normal_loop m s (real n) xMin step i data
     = data @ map (sample_at (\<lambda>x. normalPDFGeneral x m s) xMin step) [i..<n]"
proof (induction "n - i" arbitrary: i data)
  case 0
  then show ?case by (subst normal_loop.simps) simp
next
  case (Suc d)
  let ?f = "sample_at (\<lambda>x. normalPDFGeneral x m s) xMin step"
  from Suc have lt: "i < n" and d: "d = n - Suc i" by simp_all
  have "normal_loop m s (real n) xMin step i data
      = normal_loop m s (real n) xMin step (Suc i) (data @ [?f i])"
    using lt by (subst normal_loop.simps) (simp add: Let_def sample_at_def)
  also have "\<dots> = (data @ [?f i]) @ map ?f [Suc i..<n]"
    using Suc.hyps(1) [OF d] .
  also have "\<dots> = data @ map ?f [i..<n]"
    using lt by (simp add: upt_conv_Cons)
  finally show ?case .
qed

lemma lognormal_loop_map:
  "lognormal_loop lm ls (real n) xMin step i data
     = data @ map (sample_at (\<lambda>x. lognormalPDF x lm ls) xMin step) [i..<n]"
proof (induction "n - i" arbitrary: i data)
  case 0
  then show ?case by (subst lognormal_loop.simps) simp
next
  case (Suc d)
  let ?f = "sample_at (\<lambda>x. lognormalPDF x lm ls) xMin step"
  from Suc have lt: "i < n" and d: "d = n - Suc i" by simp_all
  have "lognormal_loop lm ls (real n) xMin step i data
      = lognormal_loop lm ls (real n) xMin step (Suc i) (data @ [?f i])"
    using lt by (subst lognormal_loop.simps) (simp add: Let_def sample_at_def)
  also have "\<dots> = (data @ [?f i]) @ map ?f [Suc i..<n]"
    using Suc.hyps(1) [OF d] .
  also have "\<dots> = data @ map ?f [i..<n]"
    using lt by (simp add: upt_conv_Cons)
  finally show ?case .
qed

text \<open>Facts about an equally spaced grid of n points from lo to hi.\<close>

lemma grid_last:
  fixes lo hi :: real
  assumes "2 \<le> n"
  shows "lo + real (n - 1) * ((hi - lo) / (real n - 1)) = hi"
proof -
  have "real (n - 1) = real n - 1" using assms by (simp add: of_nat_diff)
  moreover have "real n - 1 \<noteq> 0" using assms by simp
  ultimately show ?thesis by simp
qed

lemma grid_step_pos:
  fixes lo hi :: real
  assumes "2 \<le> n"
  shows "0 < (hi - lo) / (real n - 1) \<longleftrightarrow> lo < hi"
proof -
  have "0 < real n - 1" using assms by simp
  then show ?thesis by (simp add: zero_less_divide_iff)
qed

lemma grid_strict:
  fixes lo step :: real
  assumes "2 \<le> n"
  shows "sorted_wrt (<) (map (\<lambda>k. lo + real k * step) [0..<n]) \<longleftrightarrow> 0 < step"
proof
  let ?xs = "map (\<lambda>k. lo + real k * step) [0..<n]"
  assume "sorted_wrt (<) ?xs"
  moreover have "(0::nat) < 1" "1 < length ?xs" using assms by simp_all
  ultimately have "?xs ! 0 < ?xs ! 1"
    by (rule sorted_wrt_nth_less)
  then show "0 < step" using assms by simp
next
  assume "0 < step"
  then show "sorted_wrt (<) (map (\<lambda>k. lo + real k * step) [0..<n])"
    by (simp add: sorted_wrt_map sorted_wrt_iff_nth_less)
qed

lemma xs_of_grid:
  "xs_of (map (sample_at pdf lo step) [0..<n]) = map (\<lambda>k. lo + real k * step) [0..<n]"
  by (simp add: xs_of_def sample_at_def comp_def)

lemma generateNormalDistributionData_map:
  "generateNormalDistributionData m s (real n) k =
     map (sample_at (\<lambda>x. normalPDFGeneral x m s) (max 0 (m - k * s))
            ((m + k * s - max 0 (m - k * s)) / (real n - 1))) [0..<n]"
  by (simp add: generateNormalDistributionData_def Let_def normal_loop_map)

lemma generateLognormalDistributionData_map:
  "generateLognormalDistributionData lm ls (real n) k =
     map (sample_at (\<lambda>x. lognormalPDF x lm ls) (exp (max 0 (lm - k * ls)))
            ((exp (lm + k * ls) - exp (max 0 (lm - k * ls))) / (real n - 1))) [0..<n]"
  by (simp add: generateLognormalDistributionData_def Let_def lognormal_loop_map)


lemma grid_diff:
  "Suc i < n \<Longrightarrow>
   sample_x (map (sample_at pdf lo st) [0..<n] ! Suc i)
     - sample_x (map (sample_at pdf lo st) [0..<n] ! i) = st"
  by (simp add: sample_at_def algebra_simps)

lemma generateNormalDistributionData_grid:
  fixes m s k :: real and n :: nat
  defines "data \<equiv> generateNormalDistributionData m s (real n) k"
  defines "xMin \<equiv> max 0 (m - k * s)"
  defines "xMax \<equiv> m + k * s"
  assumes n: "2 \<le> n"
  shows "length data = n \<and>
         (\<forall>i<n. sample_x (data ! i) = xMin + real i * ((xMax - xMin) / (real n - 1))) \<and>
         (\<forall>i<n. sample_y (data ! i) = normalPDFGeneral (sample_x (data ! i)) m s) \<and>
         (\<forall>i. Suc i < n \<longrightarrow>
            sample_x (data ! Suc i) - sample_x (data ! i) = (xMax - xMin) / (real n - 1)) \<and>
         sample_x (data ! 0) = xMin \<and>
         sample_x (data ! (n - 1)) = xMax \<and>
         (sorted_wrt (<) (xs_of data) \<longleftrightarrow> xMin < xMax)"
proof -
  define step where "step = (xMax - xMin) / (real n - 1)"
  let ?f = "sample_at (\<lambda>x. normalPDFGeneral x m s) xMin step"
  have data: "data = map ?f [0..<n]"
    unfolding data_def xMin_def xMax_def step_def by (rule generateNormalDistributionData_map)
  have len: "length data = n" by (simp add: data)
  have nth: "data ! i = ?f i" if "i < n" for i using that by (simp add: data)
  have xs: "\<forall>i<n. sample_x (data ! i) = xMin + real i * step"
    by (simp add: nth sample_at_def)
  have ys: "\<forall>i<n. sample_y (data ! i) = normalPDFGeneral (sample_x (data ! i)) m s"
    by (simp add: nth sample_at_def)
  have diff: "\<forall>i. Suc i < n \<longrightarrow> sample_x (data ! Suc i) - sample_x (data ! i) = step"
    unfolding data using grid_diff by blast
  have first: "sample_x (data ! 0) = xMin"
    using n by (simp add: nth sample_at_def)
  have last: "sample_x (data ! (n - 1)) = xMax"
    using n grid_last [OF n, of xMin xMax] by (simp add: nth sample_at_def step_def)
  have "sorted_wrt (<) (xs_of data) \<longleftrightarrow> 0 < step"
    unfolding data xs_of_grid by (rule grid_strict [OF n])
  also have "\<dots> \<longleftrightarrow> xMin < xMax"
    unfolding step_def by (rule grid_step_pos [OF n])
  finally have mono: "sorted_wrt (<) (xs_of data) \<longleftrightarrow> xMin < xMax" .
  from len xs ys diff first last mono show ?thesis unfolding step_def by blast
qed

lemma generateLognormalDistributionData_grid:
  fixes lm ls k :: real and n :: nat
  defines "data \<equiv> generateLognormalDistributionData lm ls (real n) k"
  defines "xMin \<equiv> exp (max 0 (lm - k * ls))"
  defines "xMax \<equiv> exp (lm + k * ls)"
  assumes n: "2 \<le> n"
  shows "length data = n \<and>
         (\<forall>i<n. sample_x (data ! i) = xMin + real i * ((xMax - xMin) / (real n - 1))) \<and>
         (\<forall>i<n. sample_y (data ! i) = lognormalPDF (sample_x (data ! i)) lm ls) \<and>
         (\<forall>i. Suc i < n \<longrightarrow>
            sample_x (data ! Suc i) - sample_x (data ! i) = (xMax - xMin) / (real n - 1)) \<and>
         sample_x (data ! 0) = xMin \<and>
         sample_x (data ! (n - 1)) = xMax"
proof -
  define step where "step = (xMax - xMin) / (real n - 1)"
  let ?f = "sample_at (\<lambda>x. lognormalPDF x lm ls) xMin step"
  have data: "data = map ?f [0..<n]"
    unfolding data_def xMin_def xMax_def step_def by (rule generateLognormalDistributionData_map)
  have len: "length data = n" by (simp add: data)
  have nth: "data ! i = ?f i" if "i < n" for i using that by (simp add: data)
  have xs: "\<forall>i<n. sample_x (data ! i) = xMin + real i * step"
    by (simp add: nth sample_at_def)
  have ys: "\<forall>i<n. sample_y (data ! i) = lognormalPDF (sample_x (data ! i)) lm ls"
    by (simp add: nth sample_at_def)
  have diff: "\<forall>i. Suc i < n \<longrightarrow> sample_x (data ! Suc i) - sample_x (data ! i) = step"
    unfolding data using grid_diff by blast
  have first: "sample_x (data ! 0) = xMin"
    using n by (simp add: nth sample_at_def)
  have last: "sample_x (data ! (n - 1)) = xMax"
    using n grid_last [OF n, of xMin xMax] by (simp add: nth sample_at_def step_def)
  from len xs ys diff first last show ?thesis unfolding step_def by blast
qed

lemma normal_example:
  "length (generateNormalDistributionData 100 10 300 3) = 300 \<and>
   sorted_wrt (<) (xs_of (generateNormalDistributionData 100 10 300 3)) \<and>
   sample_x (generateNormalDistributionData 100 10 300 3 ! 0) = 70 \<and>
   sample_x (generateNormalDistributionData 100 10 300 3 ! 299) = 130"
  using generateNormalDistributionData_grid [of 300 100 10 3] by simp

lemma lognormal_not_log_spaced:
  "sample_x (generateLognormalDistributionData 1 1 3 1 ! 1)
     * sample_x (generateLognormalDistributionData 1 1 3 1 ! 1)
   \<noteq> sample_x (generateLognormalDistributionData 1 1 3 1 ! 0)
     * sample_x (generateLognormalDistributionData 1 1 3 1 ! 2)"
proof -
  define t :: real where "t = exp 2"
  have t: "1 < t" by (simp add: t_def)
  have x0: "sample_x (generateLognormalDistributionData 1 1 3 1 ! 0) = 1"
    and x1: "sample_x (generateLognormalDistributionData 1 1 3 1 ! 1) = 1 + (t - 1) / 2"
    and x2: "sample_x (generateLognormalDistributionData 1 1 3 1 ! 2) = t"
    using generateLognormalDistributionData_grid [of 3 1 1 1] by (simp_all add: t_def)
  have "(1 + (t - 1) / 2) * (1 + (t - 1) / 2) - t = ((t - 1) / 2) * ((t - 1) / 2)"
    by (simp add: algebra_simps)
  moreover have "0 < ((t - 1) / 2) * ((t - 1) / 2)" using t by simp
  ultimately show ?thesis unfolding x0 x1 x2 by simp
qed

text \<open>
  C2, as stated: for every \<open>mean\<close>, \<open>stdDev\<close>, \<open>numStdDev\<close> and every \<open>numPoints \<ge> 2\<close> the
  \<open>x\<close> values are strictly increasing. With \<open>stdDev = 0\<close>, which the settings allow
  (\<open>risk = 0\<close> gives it), \<open>xMin = max(0, 100 - 3 * 0) = 100 = xMax\<close>, the step is 0 and all
  300 samples have \<open>x = 100\<close>.
\<close>

theorem generateNormalDistributionData_not_increasing:
  "\<not> sorted_wrt (<) (xs_of (generateNormalDistributionData 100 0 300 3))"
  using generateNormalDistributionData_grid [of 300 100 0 3] by simp

text \<open>
  C2, amended: for every \<open>mean\<close>, \<open>stdDev\<close>, \<open>numStdDev\<close> and every integral
  \<open>numPoints \<ge> 2\<close>, \<open>generateNormalDistributionData\<close> returns exactly \<open>numPoints\<close> samples,
  equally spaced by \<open>(xMax - xMin) / (numPoints - 1)\<close>, the first at
  \<open>xMin = max(0, mean - numStdDev * stdDev)\<close>, the last at
  \<open>xMax = mean + numStdDev * stdDev\<close>, each with \<open>y = normalPDFGeneral(x, mean, stdDev)\<close>;
  the \<open>x\<close> values are strictly increasing exactly when \<open>xMin < xMax\<close>. In particular
  \<open>generateNormalDistributionData(100, 10, 300, 3)\<close> returns 300 samples with strictly
  increasing \<open>x\<close>, from 70 to 130. (Over the reals the last \<open>x\<close> is \<open>xMax\<close> itself; the
  doubles of the source reach it up to rounding.)
\<close>

theorem generateNormalDistributionData_curve:
  "(2 \<le> n \<longrightarrow>
      length (generateNormalDistributionData m s (real n) k) = n \<and>
      (\<forall>i<n. sample_x (generateNormalDistributionData m s (real n) k ! i)
              = max 0 (m - k * s)
                + real i * ((m + k * s - max 0 (m - k * s)) / (real n - 1))) \<and>
      (\<forall>i<n. sample_y (generateNormalDistributionData m s (real n) k ! i)
              = normalPDFGeneral (sample_x (generateNormalDistributionData m s (real n) k ! i)) m s) \<and>
      (\<forall>i. Suc i < n \<longrightarrow>
            sample_x (generateNormalDistributionData m s (real n) k ! Suc i)
              - sample_x (generateNormalDistributionData m s (real n) k ! i)
            = (m + k * s - max 0 (m - k * s)) / (real n - 1)) \<and>
      sample_x (generateNormalDistributionData m s (real n) k ! 0) = max 0 (m - k * s) \<and>
      sample_x (generateNormalDistributionData m s (real n) k ! (n - 1)) = m + k * s \<and>
      (sorted_wrt (<) (xs_of (generateNormalDistributionData m s (real n) k))
         \<longleftrightarrow> max 0 (m - k * s) < m + k * s)) \<and>
   length (generateNormalDistributionData 100 10 300 3) = 300 \<and>
   sorted_wrt (<) (xs_of (generateNormalDistributionData 100 10 300 3)) \<and>
   sample_x (generateNormalDistributionData 100 10 300 3 ! 0) = 70 \<and>
   sample_x (generateNormalDistributionData 100 10 300 3 ! 299) = 130"
  using generateNormalDistributionData_grid [of n m s k] normal_example by blast

theorem generateNormalDistributionData_curve_witness:
  "(2 :: nat) \<le> 2 \<and>
   length (generateNormalDistributionData 1 1 2 1) = 2 \<and>
   sample_x (generateNormalDistributionData 1 1 2 1 ! 0) = 0 \<and>
   sample_x (generateNormalDistributionData 1 1 2 1 ! 1) = 2 \<and>
   sample_y (generateNormalDistributionData 1 1 2 1 ! 1) = normalPDFGeneral 2 1 1 \<and>
   sorted_wrt (<) (xs_of (generateNormalDistributionData 1 1 2 1))"
  using generateNormalDistributionData_curve [of 2 1 1 1] by simp

text \<open>
  C6. For every \<open>logMean\<close>, \<open>logStdDev\<close>, \<open>numStdDev\<close> and every integral
  \<open>numPoints \<ge> 2\<close>, \<open>generateLognormalDistributionData\<close> returns exactly \<open>numPoints\<close>
  samples whose \<open>x\<close> values are equally spaced in the natural scale from
  \<open>xMin = exp(max(0, logMean - numStdDev * logStdDev))\<close> to
  \<open>xMax = exp(logMean + numStdDev * logStdDev)\<close>, each with
  \<open>y = lognormalPDF(x, logMean, logStdDev)\<close>. The spacing is not logarithmic: for
  \<open>(1, 1, 3, 1)\<close> the three \<open>x\<close> values are not in geometric progression.
\<close>

theorem generateLognormalDistributionData_curve:
  "(2 \<le> n \<longrightarrow>
      length (generateLognormalDistributionData lm ls (real n) k) = n \<and>
      (\<forall>i<n. sample_x (generateLognormalDistributionData lm ls (real n) k ! i)
              = exp (max 0 (lm - k * ls))
                + real i * ((exp (lm + k * ls) - exp (max 0 (lm - k * ls))) / (real n - 1))) \<and>
      (\<forall>i<n. sample_y (generateLognormalDistributionData lm ls (real n) k ! i)
              = lognormalPDF (sample_x (generateLognormalDistributionData lm ls (real n) k ! i)) lm ls) \<and>
      (\<forall>i. Suc i < n \<longrightarrow>
            sample_x (generateLognormalDistributionData lm ls (real n) k ! Suc i)
              - sample_x (generateLognormalDistributionData lm ls (real n) k ! i)
            = (exp (lm + k * ls) - exp (max 0 (lm - k * ls))) / (real n - 1)) \<and>
      sample_x (generateLognormalDistributionData lm ls (real n) k ! 0)
        = exp (max 0 (lm - k * ls)) \<and>
      sample_x (generateLognormalDistributionData lm ls (real n) k ! (n - 1))
        = exp (lm + k * ls)) \<and>
   sample_x (generateLognormalDistributionData 1 1 3 1 ! 1)
     * sample_x (generateLognormalDistributionData 1 1 3 1 ! 1)
   \<noteq> sample_x (generateLognormalDistributionData 1 1 3 1 ! 0)
     * sample_x (generateLognormalDistributionData 1 1 3 1 ! 2)"
  using generateLognormalDistributionData_grid [of n lm ls k] lognormal_not_log_spaced by blast

theorem generateLognormalDistributionData_curve_witness:
  "(2 :: nat) \<le> 3 \<and>
   length (generateLognormalDistributionData 1 1 3 1) = 3 \<and>
   sample_x (generateLognormalDistributionData 1 1 3 1 ! 0) = 1 \<and>
   sample_x (generateLognormalDistributionData 1 1 3 1 ! 1) = 1 + (exp 2 - 1) / 2 \<and>
   sample_x (generateLognormalDistributionData 1 1 3 1 ! 2) = exp 2 \<and>
   sample_y (generateLognormalDistributionData 1 1 3 1 ! 2) = lognormalPDF (exp 2) 1 1"
  using generateLognormalDistributionData_curve [of 3 1 1 1] by simp

subsection \<open>The lognormal evaluators outside the support\<close>

text \<open>
  C8. For every \<open>x \<le> 0\<close> and every \<open>logMean\<close> and \<open>logStdDev\<close>, \<open>lognormalPDF\<close> and
  \<open>lognormalCDF\<close> both return exactly 0. Neither function has a \<open>throw\<close>, and the guard
  returns before \<open>Math.log\<close> and the division are reached, so the result does not depend
  on the two parameters at all (also not on \<open>logStdDev = 0\<close>).
\<close>

theorem lognormal_nonpositive_zero:
  "x \<le> 0 \<Longrightarrow> lognormalPDF x lm ls = 0 \<and> lognormalCDF x lm ls = 0"
  by (simp add: lognormalPDF_def lognormalCDF_def)

theorem lognormal_nonpositive_zero_witness:
  "(- 5 :: real) \<le> 0 \<and> lognormalPDF (- 5) 14 0 = 0 \<and> lognormalCDF (- 5) 14 0 = 0"
  using lognormal_nonpositive_zero [of "- 5" 14 0] by simp

subsection \<open>Worst case against risk at a threshold of 90\<close>

text \<open>
  At a threshold of 90 both pages call \<open>normalInverseCDF(0.1)\<close>, which is in the central
  branch (\<open>y = -0.4\<close>) and is a quotient of two polynomials in rational numbers.
\<close>

lemma zScore_90:
  "\<exists>z. normalInverseCDF (1 / 10) = Inr z \<and> - 1.2816 < z \<and> z < - 1.2815"
  by (simp add: normalInverseCDF_def)

lemma lognormal_page_90:
  assumes z: "normalInverseCDF (1 / 10) = Inr z"
  shows "DistributionPage_lognormal (s\<lparr>InvestmentSettings.risk := r, probabilityThreshold := 90\<rparr>) t None None
    = Inr \<lparr>worstCaseAssets =
             exp (ln (totalAssets s * investmentRatio s / 100)
                  + (InvestmentSettings.expectedReturn s / 100 - (r / 100) * (r / 100) / 2) * t
                  + z * ((r / 100) * sqrt t)),
           worstCaseLoss =
             exp (ln (totalAssets s * investmentRatio s / 100)
                  + (InvestmentSettings.expectedReturn s / 100 - (r / 100) * (r / 100) / 2) * t
                  + z * ((r / 100) * sqrt t))
             - totalAssets s * investmentRatio s / 100\<rparr>"
  by (simp add: DistributionPage_lognormal_def calculateInvestmentDistribution_def Let_def z)

lemma normal_page_90:
  assumes z: "normalInverseCDF (1 / 10) = Inr z"
  shows "DistributionPage_normal (s\<lparr>InvestmentSettings.risk := r, probabilityThreshold := 90\<rparr>) t None None
    = Inr \<lparr>worstCaseAssets =
             max 0 (totalAssets s * investmentRatio s / 100
                      * Math_pow (1 + InvestmentSettings.expectedReturn s / 100) t
                    + z * (totalAssets s * investmentRatio s / 100
                      * Math_pow (1 + InvestmentSettings.expectedReturn s / 100) t * (r / 100) * sqrt t)),
           worstCaseLoss =
             max 0 (totalAssets s * investmentRatio s / 100
                      * Math_pow (1 + InvestmentSettings.expectedReturn s / 100) t
                    + z * (totalAssets s * investmentRatio s / 100
                      * Math_pow (1 + InvestmentSettings.expectedReturn s / 100) t * (r / 100) * sqrt t))
             - totalAssets s * investmentRatio s / 100\<rparr>"
  by (simp add: DistributionPage_normal_def calculateInvestmentDistribution_normal_def Let_def z)


lemma lognormal_worst_strict:
  fixes z t c mu a b :: real
  assumes "z < 0" "0 < t" "0 \<le> a" "a < b"
  shows "exp (c + (mu - b * b / 2) * t + z * (b * sqrt t))
       < exp (c + (mu - a * a / 2) * t + z * (a * sqrt t))"
proof -
  have sq: "0 < sqrt t" using assms(2) by simp
  have "a * a \<le> b * b" using assms(3,4) by (intro mult_mono) simp_all
  then have "a * a * t \<le> b * b * t" using assms(2) by (intro mult_right_mono) simp_all
  then have 1: "(mu - b * b / 2) * t \<le> (mu - a * a / 2) * t"
    by (simp add: algebra_simps)
  have "a * sqrt t < b * sqrt t" using assms(4) sq by (rule mult_strict_right_mono)
  then have 2: "z * (b * sqrt t) < z * (a * sqrt t)"
    using assms(1) by (rule mult_strict_left_mono_neg)
  from 1 2 show ?thesis by simp
qed

lemma normal_worst_mono:
  fixes z t m a b :: real
  assumes "z < 0" "0 < t" "0 \<le> m" "a < b"
  shows "max 0 (m + z * (m * b * sqrt t)) \<le> max 0 (m + z * (m * a * sqrt t))"
    and "max 0 (m + z * (m * b * sqrt t)) < max 0 (m + z * (m * a * sqrt t))
         \<longleftrightarrow> 0 < max 0 (m + z * (m * a * sqrt t))"
proof -
  have sq: "0 < sqrt t" using assms(2) by simp
  have "m * a \<le> m * b" using assms(3,4) by (intro mult_left_mono) simp_all
  then have "m * a * sqrt t \<le> m * b * sqrt t" using sq by (intro mult_right_mono) simp_all
  then have le: "z * (m * b * sqrt t) \<le> z * (m * a * sqrt t)"
    using assms(1) by (intro mult_left_mono_neg) simp_all
  then show "max 0 (m + z * (m * b * sqrt t)) \<le> max 0 (m + z * (m * a * sqrt t))"
    by simp
  have strict: "z * (m * b * sqrt t) < z * (m * a * sqrt t)" if "0 < m"
  proof -
    have "m * a < m * b" using that assms(4) by simp
    then have "m * a * sqrt t < m * b * sqrt t" using sq by (rule mult_strict_right_mono)
    then show ?thesis using assms(1) by (rule mult_strict_left_mono_neg)
  qed
  show "max 0 (m + z * (m * b * sqrt t)) < max 0 (m + z * (m * a * sqrt t))
         \<longleftrightarrow> 0 < max 0 (m + z * (m * a * sqrt t))"
  proof
    assume "max 0 (m + z * (m * b * sqrt t)) < max 0 (m + z * (m * a * sqrt t))"
    then show "0 < max 0 (m + z * (m * a * sqrt t))" by simp
  next
    assume pos: "0 < max 0 (m + z * (m * a * sqrt t))"
    then have u: "0 < m + z * (m * a * sqrt t)" by simp
    have "m \<noteq> 0" using u by auto
    then have "0 < m" using assms(3) by simp
    from strict [OF this] u
    show "max 0 (m + z * (m * b * sqrt t)) < max 0 (m + z * (m * a * sqrt t))" by simp
  qed
qed


lemma clipped_at_zero:
  fixes z m r :: real
  assumes z: "z < - 1.2815" and m: "0 \<le> m" and r: "0.3 \<le> r"
  shows "max 0 (m + z * (m * r * sqrt 10)) = 0"
proof -
  have "0.3 * 3.1622 \<le> r * sqrt 10"
    using r sqrt10_bounds by (intro mult_mono) simp_all
  then have 1: "m * (0.3 * 3.1622) \<le> m * (r * sqrt 10)"
    using m by (rule mult_left_mono)
  have z0: "z \<le> 0" using z by simp
  have "z * (m * (r * sqrt 10)) \<le> z * (m * (0.3 * 3.1622))"
    using 1 z0 by (rule mult_left_mono_neg)
  also have "\<dots> \<le> - 1.2815 * (m * (0.3 * 3.1622))"
  proof (rule mult_right_mono)
    show "z \<le> - 1.2815" using z by simp
    show "0 \<le> m * (0.3 * 3.1622)" using m by simp
  qed
  also have "\<dots> \<le> - m" using m by simp
  finally have "m + z * (m * r * sqrt 10) \<le> 0" by (simp add: mult.assoc)
  then show ?thesis by simp
qed

lemma normal_mean_eq:
  "mean (calculateInvestmentDistribution_normal
           \<lparr>initialAssets = a, expectedReturn = e, risk = r, years = t\<rparr>)
     = a * Math_pow (1 + e / 100) t"
  by (simp add: calculateInvestmentDistribution_normal_def Let_def)

lemma Math_pow_minus_one: "Math_pow (- 1) 1 = - 1"
  by (simp add: Math_pow_def)

text \<open>
  C9, as stated: at a threshold of 90 the worst-case loss is strictly decreasing in the
  risk in both variants, and at a risk of 0 the worst case is the mean. The normal
  variant, whose worst case is \<open>max(0, mean + z*stdDev)\<close>, breaks this in three ways, all
  for one million at a ratio of 50. With a return of 7.5 and 10 years, \<open>mean + z*stdDev\<close>
  is negative at a risk of 30 already, so at 30 and at 40 the worst case is clipped to 0
  and the loss is the whole invested amount both times. With a return of -200 and 1 year
  the mean is -500000 and \<open>stdDev\<close> is negative with it, so the loss rises with the risk:
  -500000 at a risk of 50, above -360000 at a risk of 100. And for the same return and
  horizon at a risk of 0 the worst case is 0, while the mean is -500000.
\<close>

theorem normal_worstCaseLoss_not_decreasing:
  "DistributionPage_normal
     \<lparr>totalAssets = 1000000, investmentRatio = 50, probabilityThreshold = 90,
      InvestmentSettings.expectedReturn = 7.5, InvestmentSettings.risk = 30\<rparr> 10 None None
     = Inr \<lparr>worstCaseAssets = 0, worstCaseLoss = - 500000\<rparr> \<and>
   DistributionPage_normal
     \<lparr>totalAssets = 1000000, investmentRatio = 50, probabilityThreshold = 90,
      InvestmentSettings.expectedReturn = 7.5, InvestmentSettings.risk = 40\<rparr> 10 None None
     = Inr \<lparr>worstCaseAssets = 0, worstCaseLoss = - 500000\<rparr> \<and>
   DistributionPage_normal
     \<lparr>totalAssets = 1000000, investmentRatio = 50, probabilityThreshold = 90,
      InvestmentSettings.expectedReturn = - 200, InvestmentSettings.risk = 50\<rparr> 1 None None
     = Inr \<lparr>worstCaseAssets = 0, worstCaseLoss = - 500000\<rparr> \<and>
   \<not> isl (DistributionPage_normal
     \<lparr>totalAssets = 1000000, investmentRatio = 50, probabilityThreshold = 90,
      InvestmentSettings.expectedReturn = - 200, InvestmentSettings.risk = 100\<rparr> 1 None None) \<and>
   - 360000 < worstCaseLoss (projr (DistributionPage_normal
     \<lparr>totalAssets = 1000000, investmentRatio = 50, probabilityThreshold = 90,
      InvestmentSettings.expectedReturn = - 200, InvestmentSettings.risk = 100\<rparr> 1 None None)) \<and>
   DistributionPage_normal
     \<lparr>totalAssets = 1000000, investmentRatio = 50, probabilityThreshold = 90,
      InvestmentSettings.expectedReturn = - 200, InvestmentSettings.risk = 0\<rparr> 1 None None
     = Inr \<lparr>worstCaseAssets = 0, worstCaseLoss = - 500000\<rparr> \<and>
   mean (calculateInvestmentDistribution_normal
     \<lparr>initialAssets = 500000, expectedReturn = - 200, risk = 0, years = 1\<rparr>) = - 500000"
proof -
  obtain z where z: "normalInverseCDF (1 / 10) = Inr z" "- 1.2816 < z" "z < - 1.2815"
    using zScore_90 by blast
  let ?s = "\<lparr>totalAssets = 1000000, investmentRatio = 50, probabilityThreshold = 90,
      InvestmentSettings.expectedReturn = 7.5, InvestmentSettings.risk = 30\<rparr>"
  let ?n = "\<lparr>totalAssets = 1000000, investmentRatio = 50, probabilityThreshold = 90,
      InvestmentSettings.expectedReturn = - 200, InvestmentSettings.risk = 0\<rparr>"
  have m: "(0::real) \<le> 1000000 * 50 / 100 * Math_pow (1 + 7.5 / 100) 10"
    by (simp add: Math_pow_def)
  have c30: "max 0 (1000000 * 50 / 100 * Math_pow (1 + 7.5 / 100) 10
                    + z * (1000000 * 50 / 100 * Math_pow (1 + 7.5 / 100) 10 * (30 / 100) * sqrt 10)) = 0"
    using z(3) m by (rule clipped_at_zero) simp
  have c40: "max 0 (1000000 * 50 / 100 * Math_pow (1 + 7.5 / 100) 10
                    + z * (1000000 * 50 / 100 * Math_pow (1 + 7.5 / 100) 10 * (40 / 100) * sqrt 10)) = 0"
    using z(3) m by (rule clipped_at_zero) simp
  have p30: "DistributionPage_normal (?s\<lparr>InvestmentSettings.risk := 30, probabilityThreshold := 90\<rparr>) 10 None None
      = Inr \<lparr>worstCaseAssets = 0, worstCaseLoss = - 500000\<rparr>"
    unfolding normal_page_90 [OF z(1)] by (simp only: InvestmentSettings.simps c30) simp
  have p40: "DistributionPage_normal (?s\<lparr>InvestmentSettings.risk := 40, probabilityThreshold := 90\<rparr>) 10 None None
      = Inr \<lparr>worstCaseAssets = 0, worstCaseLoss = - 500000\<rparr>"
    unfolding normal_page_90 [OF z(1)] by (simp only: InvestmentSettings.simps c40) simp
  have n50: "DistributionPage_normal (?n\<lparr>InvestmentSettings.risk := 50, probabilityThreshold := 90\<rparr>) 1 None None
      = Inr \<lparr>worstCaseAssets = 0, worstCaseLoss = - 500000\<rparr>"
    unfolding normal_page_90 [OF z(1)]
    using z(2) by (simp add: Math_pow_minus_one)
  have n100: "DistributionPage_normal (?n\<lparr>InvestmentSettings.risk := 100, probabilityThreshold := 90\<rparr>) 1 None None
      = Inr \<lparr>worstCaseAssets = - 500000 - 500000 * z, worstCaseLoss = - 1000000 - 500000 * z\<rparr>"
    unfolding normal_page_90 [OF z(1)]
    using z(3) by (simp add: Math_pow_minus_one max_def)
  have n0: "DistributionPage_normal (?n\<lparr>InvestmentSettings.risk := 0, probabilityThreshold := 90\<rparr>) 1 None None
      = Inr \<lparr>worstCaseAssets = 0, worstCaseLoss = - 500000\<rparr>"
    unfolding normal_page_90 [OF z(1)]
    by (simp add: Math_pow_minus_one)
  have mean: "mean (calculateInvestmentDistribution_normal
     \<lparr>initialAssets = 500000, expectedReturn = - 200, risk = 0, years = 1\<rparr>) = - 500000"
    unfolding normal_mean_eq by (simp add: Math_pow_minus_one)
  have l100: "- 360000 < - 1000000 - 500000 * z" using z(3) by simp
  from p30 p40 n50 n100 n0 mean l100 show ?thesis by simp
qed


lemma lognormal_page_risk:
  assumes t: "0 < t" and amt: "0 < totalAssets s * investmentRatio s / 100"
    and r: "0 \<le> r1" "r1 < r2"
  shows "\<exists>a b.
      DistributionPage_lognormal
        (s\<lparr>InvestmentSettings.risk := r1, probabilityThreshold := 90\<rparr>) t None None = Inr a \<and>
      DistributionPage_lognormal
        (s\<lparr>InvestmentSettings.risk := r2, probabilityThreshold := 90\<rparr>) t None None = Inr b \<and>
      worstCaseLoss b < worstCaseLoss a"
proof -
  obtain z where z: "normalInverseCDF (1 / 10) = Inr z" "z < - 1.2815"
    using zScore_90 by blast
  have "z < 0" using z(2) by simp
  moreover have "0 \<le> r1 / 100" "r1 / 100 < r2 / 100" using r by simp_all
  ultimately have
    "exp (ln (totalAssets s * investmentRatio s / 100)
          + (InvestmentSettings.expectedReturn s / 100 - (r2 / 100) * (r2 / 100) / 2) * t
          + z * ((r2 / 100) * sqrt t))
     < exp (ln (totalAssets s * investmentRatio s / 100)
          + (InvestmentSettings.expectedReturn s / 100 - (r1 / 100) * (r1 / 100) / 2) * t
          + z * ((r1 / 100) * sqrt t))"
    using t by (intro lognormal_worst_strict)
  then show ?thesis
    unfolding lognormal_page_90 [OF z(1)] by simp
qed

lemma lognormal_page_risk_zero:
  assumes amt: "0 < totalAssets s * investmentRatio s / 100"
  shows "\<exists>c.
      DistributionPage_lognormal
        (s\<lparr>InvestmentSettings.risk := 0, probabilityThreshold := 90\<rparr>) t None None = Inr c \<and>
      worstCaseAssets c =
        mean (calculateInvestmentDistribution
               \<lparr>initialAssets = totalAssets s * investmentRatio s / 100,
                expectedReturn = InvestmentSettings.expectedReturn s,
                risk = 0, years = t\<rparr>)"
proof -
  obtain z where z: "normalInverseCDF (1 / 10) = Inr z"
    using zScore_90 by blast
  show ?thesis
    unfolding lognormal_page_90 [OF z]
    using amt by (simp add: calculateInvestmentDistribution_def exp_add)
qed

lemma normal_page_risk:
  assumes t: "0 < t"
    and m: "0 \<le> mean (calculateInvestmentDistribution_normal
               \<lparr>initialAssets = totalAssets s * investmentRatio s / 100,
                expectedReturn = InvestmentSettings.expectedReturn s,
                risk = r1, years = t\<rparr>)"
    and r: "r1 < r2"
  shows "\<exists>a b.
      DistributionPage_normal
        (s\<lparr>InvestmentSettings.risk := r1, probabilityThreshold := 90\<rparr>) t None None = Inr a \<and>
      DistributionPage_normal
        (s\<lparr>InvestmentSettings.risk := r2, probabilityThreshold := 90\<rparr>) t None None = Inr b \<and>
      worstCaseLoss b \<le> worstCaseLoss a \<and>
      (worstCaseLoss b < worstCaseLoss a \<longleftrightarrow> 0 < worstCaseAssets a)"
proof -
  obtain z where z: "normalInverseCDF (1 / 10) = Inr z" "z < - 1.2815"
    using zScore_90 by blast
  define m where "m = totalAssets s * investmentRatio s / 100
                        * Math_pow (1 + InvestmentSettings.expectedReturn s / 100) t"
  have z0: "z < 0" using z(2) by simp
  have m: "0 \<le> m" using m unfolding m_def normal_mean_eq .
  have rr: "r1 / 100 < r2 / 100" using r by simp
  note mono = normal_worst_mono [OF z0 t m rr]
  show ?thesis
    unfolding normal_page_90 [OF z(1)] m_def [symmetric]
    using mono by simp
qed

lemma normal_page_risk_zero:
  "\<exists>c.
      DistributionPage_normal
        (s\<lparr>InvestmentSettings.risk := 0, probabilityThreshold := 90\<rparr>) t None None = Inr c \<and>
      worstCaseAssets c =
        max 0 (mean (calculateInvestmentDistribution_normal
                 \<lparr>initialAssets = totalAssets s * investmentRatio s / 100,
                  expectedReturn = InvestmentSettings.expectedReturn s,
                  risk = 0, years = t\<rparr>))"
proof -
  obtain z where z: "normalInverseCDF (1 / 10) = Inr z"
    using zScore_90 by blast
  show ?thesis
    unfolding normal_page_90 [OF z] normal_mean_eq by simp
qed

text \<open>
  C9, amended: at a threshold of 90, for a positive invested amount and a positive
  horizon, with the other settings fixed and \<open>0 \<le> r1 < r2\<close> two values of the risk. In the
  lognormal variant (\<open>worstCaseAssets = exp(logMean + z*logStdDev)\<close>) the worst-case loss
  at \<open>r2\<close> is strictly below the one at \<open>r1\<close>, and at a risk of 0 the worst case is the
  mean. In the normal variant (\<open>worstCaseAssets = max(0, mean + z*stdDev)\<close>), where the mean
  is a number (an expected return of at least -100, or a whole number of years: the inputs
  for which \<open>Math.pow\<close> has a value): when the mean is not negative, the loss at \<open>r2\<close> is
  at most the one at \<open>r1\<close>, and strictly below it exactly when the worst case at \<open>r1\<close> is
  still positive (not yet clipped at zero); and at a risk of 0 the worst case is
  \<open>max(0, mean)\<close>.
\<close>

theorem worstCaseLoss_decreasing_in_risk:
  "0 < t \<and> 0 < totalAssets s * investmentRatio s / 100 \<and> 0 \<le> r1 \<and> r1 < r2 \<longrightarrow>
     (\<exists>a b.
        DistributionPage_lognormal
          (s\<lparr>InvestmentSettings.risk := r1, probabilityThreshold := 90\<rparr>) t None None = Inr a \<and>
        DistributionPage_lognormal
          (s\<lparr>InvestmentSettings.risk := r2, probabilityThreshold := 90\<rparr>) t None None = Inr b \<and>
        worstCaseLoss b < worstCaseLoss a) \<and>
     (\<exists>c.
        DistributionPage_lognormal
          (s\<lparr>InvestmentSettings.risk := 0, probabilityThreshold := 90\<rparr>) t None None = Inr c \<and>
        worstCaseAssets c =
          mean (calculateInvestmentDistribution
                 \<lparr>initialAssets = totalAssets s * investmentRatio s / 100,
                  expectedReturn = InvestmentSettings.expectedReturn s,
                  risk = 0, years = t\<rparr>)) \<and>
     (- 100 \<le> InvestmentSettings.expectedReturn s \<or> (\<exists>n. t = real n) \<longrightarrow>
        (0 \<le> mean (calculateInvestmentDistribution_normal
                    \<lparr>initialAssets = totalAssets s * investmentRatio s / 100,
                     expectedReturn = InvestmentSettings.expectedReturn s,
                     risk = r1, years = t\<rparr>) \<longrightarrow>
           (\<exists>a b.
              DistributionPage_normal
                (s\<lparr>InvestmentSettings.risk := r1, probabilityThreshold := 90\<rparr>) t None None = Inr a \<and>
              DistributionPage_normal
                (s\<lparr>InvestmentSettings.risk := r2, probabilityThreshold := 90\<rparr>) t None None = Inr b \<and>
              worstCaseLoss b \<le> worstCaseLoss a \<and>
              (worstCaseLoss b < worstCaseLoss a \<longleftrightarrow> 0 < worstCaseAssets a))) \<and>
        (\<exists>c.
           DistributionPage_normal
             (s\<lparr>InvestmentSettings.risk := 0, probabilityThreshold := 90\<rparr>) t None None = Inr c \<and>
           worstCaseAssets c =
             max 0 (mean (calculateInvestmentDistribution_normal
                      \<lparr>initialAssets = totalAssets s * investmentRatio s / 100,
                       expectedReturn = InvestmentSettings.expectedReturn s,
                       risk = 0, years = t\<rparr>))))"
  using lognormal_page_risk [of t s r1 r2] lognormal_page_risk_zero [of s t]
    normal_page_risk [of t s r1 r2] normal_page_risk_zero [of s t]
  by blast

theorem worstCaseLoss_decreasing_in_risk_witness:
  "((0 :: real) < 10 \<and> 0 < totalAssets defaultSettings * investmentRatio defaultSettings / 100 \<and>
    (0 :: real) \<le> 15 \<and> (15 :: real) < 20 \<and>
    - 100 \<le> InvestmentSettings.expectedReturn defaultSettings \<and>
    0 \<le> mean (calculateInvestmentDistribution_normal
               \<lparr>initialAssets = totalAssets defaultSettings * investmentRatio defaultSettings / 100,
                expectedReturn = InvestmentSettings.expectedReturn defaultSettings,
                risk = 15, years = 10\<rparr>) \<and>
    (\<exists>a b.
       DistributionPage_lognormal
         (defaultSettings\<lparr>InvestmentSettings.risk := 15, probabilityThreshold := 90\<rparr>) 10 None None = Inr a \<and>
       DistributionPage_lognormal
         (defaultSettings\<lparr>InvestmentSettings.risk := 20, probabilityThreshold := 90\<rparr>) 10 None None = Inr b \<and>
       worstCaseLoss b < worstCaseLoss a) \<and>
    (\<exists>a b.
       DistributionPage_normal
         (defaultSettings\<lparr>InvestmentSettings.risk := 15, probabilityThreshold := 90\<rparr>) 10 None None = Inr a \<and>
       DistributionPage_normal
         (defaultSettings\<lparr>InvestmentSettings.risk := 20, probabilityThreshold := 90\<rparr>) 10 None None = Inr b \<and>
       worstCaseLoss b \<le> worstCaseLoss a \<and>
       (worstCaseLoss b < worstCaseLoss a \<longleftrightarrow> 0 < worstCaseAssets a))) \<and>
   ((\<exists>n. (2 :: real) = real n) \<and>
    0 \<le> mean (calculateInvestmentDistribution_normal
               \<lparr>initialAssets = totalAssets defaultSettings * investmentRatio defaultSettings / 100,
                expectedReturn = - 200, risk = 15, years = 2\<rparr>) \<and>
    (\<exists>a b.
       DistributionPage_normal
         (defaultSettings\<lparr>InvestmentSettings.expectedReturn := - 200,
            InvestmentSettings.risk := 15, probabilityThreshold := 90\<rparr>) 2 None None = Inr a \<and>
       DistributionPage_normal
         (defaultSettings\<lparr>InvestmentSettings.expectedReturn := - 200,
            InvestmentSettings.risk := 20, probabilityThreshold := 90\<rparr>) 2 None None = Inr b \<and>
       worstCaseLoss b \<le> worstCaseLoss a))"
proof -
  let ?d = "defaultSettings\<lparr>InvestmentSettings.expectedReturn := - 200\<rparr>"
  have h: "(0 :: real) < 10 \<and> 0 < totalAssets defaultSettings * investmentRatio defaultSettings / 100 \<and>
      (0 :: real) \<le> 15 \<and> (15 :: real) < 20"
    and e: "- 100 \<le> InvestmentSettings.expectedReturn defaultSettings"
    and m: "0 \<le> mean (calculateInvestmentDistribution_normal
               \<lparr>initialAssets = totalAssets defaultSettings * investmentRatio defaultSettings / 100,
                expectedReturn = InvestmentSettings.expectedReturn defaultSettings,
                risk = 15, years = 10\<rparr>)"
    by (simp_all add: defaultSettings_def normal_mean_eq Math_pow_def)
  have h': "(0 :: real) < 2 \<and> 0 < totalAssets ?d * investmentRatio ?d / 100 \<and>
      (0 :: real) \<le> 15 \<and> (15 :: real) < 20"
    by (simp add: defaultSettings_def)
  have n: "\<exists>n. (2 :: real) = real n"
    by (rule exI [of _ 2]) simp
  have m': "0 \<le> mean (calculateInvestmentDistribution_normal
               \<lparr>initialAssets = totalAssets ?d * investmentRatio ?d / 100,
                expectedReturn = InvestmentSettings.expectedReturn ?d,
                risk = 15, years = 2\<rparr>)"
    by (simp add: defaultSettings_def normal_mean_eq Math_pow_def)
  have m'': "0 \<le> mean (calculateInvestmentDistribution_normal
               \<lparr>initialAssets = totalAssets defaultSettings * investmentRatio defaultSettings / 100,
                expectedReturn = - 200, risk = 15, years = 2\<rparr>)"
    using m' by simp
  have first: "(\<exists>a b.
       DistributionPage_lognormal
         (defaultSettings\<lparr>InvestmentSettings.risk := 15, probabilityThreshold := 90\<rparr>) 10 None None = Inr a \<and>
       DistributionPage_lognormal
         (defaultSettings\<lparr>InvestmentSettings.risk := 20, probabilityThreshold := 90\<rparr>) 10 None None = Inr b \<and>
       worstCaseLoss b < worstCaseLoss a) \<and>
    (\<exists>a b.
       DistributionPage_normal
         (defaultSettings\<lparr>InvestmentSettings.risk := 15, probabilityThreshold := 90\<rparr>) 10 None None = Inr a \<and>
       DistributionPage_normal
         (defaultSettings\<lparr>InvestmentSettings.risk := 20, probabilityThreshold := 90\<rparr>) 10 None None = Inr b \<and>
       worstCaseLoss b \<le> worstCaseLoss a \<and>
       (worstCaseLoss b < worstCaseLoss a \<longleftrightarrow> 0 < worstCaseAssets a))"
    using worstCaseLoss_decreasing_in_risk [of 10 defaultSettings 15 20] h e m by blast
  have second: "\<exists>a b.
       DistributionPage_normal
         (?d\<lparr>InvestmentSettings.risk := 15, probabilityThreshold := 90\<rparr>) 2 None None = Inr a \<and>
       DistributionPage_normal
         (?d\<lparr>InvestmentSettings.risk := 20, probabilityThreshold := 90\<rparr>) 2 None None = Inr b \<and>
       worstCaseLoss b \<le> worstCaseLoss a"
    using worstCaseLoss_decreasing_in_risk [of 2 ?d 15 20] h' n m' by blast
  from h e m first n m'' second show ?thesis by blast
qed

end
